theory Spec2Isabelle
  imports Main "HOL-Library.Word"
begin

section \<open>Python values\<close>

text \<open>
  The embedding follows \<^verbatim>\<open>src/kucoin/client.py\<close>. A request parameter is a Python scalar:
  \<^verbatim>\<open>None\<close>, a bool, an int or a str. Floats and nested containers as parameter values are
  outside the model. A Python \<^verbatim>\<open>str\<close> is represented by the bytes of its UTF-8 encoding, so
  that concatenation of strings is concatenation of lists and \<^verbatim>\<open>.encode('utf-8')\<close> only
  changes the type. A \<^verbatim>\<open>dict\<close> with string keys is an association list in insertion order.
\<close>

datatype pyval = PNone | PBool bool | PInt int | PStr string

type_synonym pydict = "(string \<times> pyval) list"

type_synonym bytes = "8 word list"

text \<open>Truthiness, as \<^verbatim>\<open>if x:\<close> tests it.\<close>

fun truthy :: "pyval \<Rightarrow> bool" where
  "truthy PNone = False"
| "truthy (PBool b) = b"
| "truthy (PInt i) = (i \<noteq> 0)"
| "truthy (PStr s) = (s \<noteq> [])"

text \<open>\<^verbatim>\<open>d[k] = v\<close>: an existing key keeps its position, a new key goes last.\<close>

fun setitem :: "(string \<times> 'v) list \<Rightarrow> string \<Rightarrow> 'v \<Rightarrow> (string \<times> 'v) list" where
  "setitem [] k v = [(k, v)]"
| "setitem ((k', v') # d) k v = (if k' = k then (k, v) # d else (k', v') # setitem d k v)"

text \<open>\<^verbatim>\<open>d.get(k)\<close>: the value stored under a key, if any.\<close>

definition getitem :: "(string \<times> 'v) list \<Rightarrow> string \<Rightarrow> 'v option" where
  "getitem d k = map_of d k"

definition keys :: "(string \<times> 'v) list \<Rightarrow> string list" where
  "keys d = map fst d"

subsection \<open>Strings\<close>

definition digit_char :: "nat \<Rightarrow> char" where
  "digit_char d = ''0123456789'' ! d"

fun str_nat :: "nat \<Rightarrow> string" where
  "str_nat n = (if n < 10 then [digit_char n] else str_nat (n div 10) @ [digit_char (n mod 10)])"

declare str_nat.simps [simp del]

text \<open>\<^verbatim>\<open>str(i)\<close> for an int: decimal digits, with a minus sign when negative.\<close>

definition str_int :: "int \<Rightarrow> string" where
  "str_int i = (if i < 0 then ''-'' @ str_nat (nat (- i)) else str_nat (nat i))"

text \<open>What \<^verbatim>\<open>"{}".format(v)\<close> prints for a scalar.\<close>

fun py_str :: "pyval \<Rightarrow> string" where
  "py_str PNone = ''None''"
| "py_str (PBool b) = (if b then ''True'' else ''False'')"
| "py_str (PInt i) = str_int i"
| "py_str (PStr s) = s"

text \<open>
  \<^verbatim>\<open>str.upper()\<close> on the ASCII letters; the method names the client passes
  (\<^verbatim>\<open>get\<close>, \<^verbatim>\<open>post\<close>, \<^verbatim>\<open>put\<close>, \<^verbatim>\<open>delete\<close>) are ASCII. Other bytes are left as they are.
\<close>

definition upper_char :: "char \<Rightarrow> char" where
  "upper_char c = (let n = (of_char c :: nat) in if 97 \<le> n \<and> n \<le> 122 then char_of (n - 32) else c)"

definition upper :: "string \<Rightarrow> string" where
  "upper s = map upper_char s"

text \<open>\<^verbatim>\<open>sep.join(xs)\<close>.\<close>

fun join :: "string \<Rightarrow> string list \<Rightarrow> string" where
  "join sep [] = []"
| "join sep [x] = x"
| "join sep (x # y # ys) = x @ sep @ join sep (y # ys)"

text \<open>\<^verbatim>\<open>s.startswith(p)\<close>.\<close>

fun startswith :: "string \<Rightarrow> string \<Rightarrow> bool" where
  "startswith s [] = True"
| "startswith [] (p # ps) = False"
| "startswith (c # s) (p # ps) = (c = p \<and> startswith s ps)"

text \<open>\<^verbatim>\<open>s.encode('utf-8')\<close>: the string's bytes.\<close>

definition encode_utf8 :: "string \<Rightarrow> bytes" where
  "encode_utf8 s = map of_char s"

section \<open>The client and what it imports\<close>

text \<open>
  The functions the client calls and that are not in \<^verbatim>\<open>client.py\<close> are parameters of the
  model: \<^verbatim>\<open>hmac.new(key, msg, hashlib.sha256).digest()\<close> and \<^verbatim>\<open>base64.b64encode\<close> of the
  standard library, and \<^verbatim>\<open>compact_json_dict\<close> of \<^verbatim>\<open>kucoin/utils.py\<close>.
\<close>

record externals =
  hmac_sha256 :: "bytes \<Rightarrow> bytes \<Rightarrow> bytes"
  b64encode :: "bytes \<Rightarrow> bytes"
  compact_json_dict :: "pydict \<Rightarrow> string"

text \<open>The keyword arguments of \<^verbatim>\<open>_request\<close>, each present or absent.\<close>

datatype hval = HStr string | HBytes bytes

record kwargs =
  kw_data :: "pydict option"
  kw_headers :: "(string \<times> hval) list option"
  kw_params :: "pydict option"
  kw_timeout :: "pyval option"
  kw_rest :: pydict

record client =
  API_KEY :: string
  API_SECRET :: string
  API_PASSPHRASE :: string
  API_URL :: string
  requests_params :: "kwargs option"

definition REST_API_URL :: string where
  "REST_API_URL = ''https://openapi-v2.kucoin.com''"

definition SANDBOX_API_URL :: string where
  "SANDBOX_API_URL = ''https://openapi-sandbox.kucoin.com''"

definition API_VERSION :: string where
  "API_VERSION = ''v1''"

definition Client :: "string \<Rightarrow> string \<Rightarrow> string \<Rightarrow> bool \<Rightarrow> kwargs option \<Rightarrow> client" where
  "Client api_key api_secret passphrase sandbox rp =
     \<lparr>API_KEY = api_key, API_SECRET = api_secret, API_PASSPHRASE = passphrase,
      API_URL = (if sandbox then SANDBOX_API_URL else REST_API_URL),
      requests_params = rp\<rparr>"

section \<open>The request signer\<close>

text \<open>
  \<^verbatim>\<open>_get_params_for_sig\<close>: \<^verbatim>\<open>'&'.join(["{}={}".format(key, data[key]) for key in data])\<close>.
  Iterating a dict's keys and reading each is iterating its items.
\<close>

definition get_params_for_sig :: "pydict \<Rightarrow> string" where
  "get_params_for_sig data = join ''&'' (map (\<lambda>(key, v). key @ ''='' @ py_str v) data)"

text \<open>
  The locals \<^verbatim>\<open>endpoint\<close> and \<^verbatim>\<open>data_json\<close> of \<^verbatim>\<open>_generate_signature\<close> when the string to
  sign is formatted, as a pair.
\<close>

definition endpoint_and_data_json :: "externals \<Rightarrow> string \<Rightarrow> string \<Rightarrow> pydict \<Rightarrow> string \<times> string" where
  "endpoint_and_data_json ext method path data =
     (let data_json = ''''; endpoint = path in
      if method = ''get'' then
        (if data \<noteq> [] then
           (let query_string = get_params_for_sig data in (path @ ''?'' @ query_string, data_json))
         else (endpoint, data_json))
      else if data \<noteq> [] then (endpoint, compact_json_dict ext data)
      else (endpoint, data_json))"

text \<open>The local \<^verbatim>\<open>sig_str\<close> before it is encoded: \<^verbatim>\<open>"{}{}{}{}".format(nonce, method.upper(), endpoint, data_json)\<close>.\<close>

definition sig_str :: "externals \<Rightarrow> int \<Rightarrow> string \<Rightarrow> string \<Rightarrow> pydict \<Rightarrow> string" where
  "sig_str ext nonce method path data =
     (case endpoint_and_data_json ext method path data of
        (endpoint, data_json) \<Rightarrow> str_int nonce @ upper method @ endpoint @ data_json)"

definition generate_signature :: "externals \<Rightarrow> client \<Rightarrow> int \<Rightarrow> string \<Rightarrow> string \<Rightarrow> pydict \<Rightarrow> bytes" where
  "generate_signature ext self nonce method path data =
     b64encode ext (hmac_sha256 ext (encode_utf8 (API_SECRET self))
                                    (encode_utf8 (sig_str ext nonce method path data)))"

section \<open>The request executor\<close>

definition create_path :: "string \<Rightarrow> string" where
  "create_path path = ''/api/'' @ API_VERSION @ ''/'' @ path"

definition create_uri :: "client \<Rightarrow> string \<Rightarrow> string" where
  "create_uri self path = API_URL self @ path"

text \<open>\<^verbatim>\<open>kwargs.update(params)\<close>: every keyword that \<^verbatim>\<open>params\<close> has replaces the one of \<^verbatim>\<open>kwargs\<close>.\<close>

definition override :: "'a option \<Rightarrow> 'a option \<Rightarrow> 'a option" where
  "override old new = (case new of None \<Rightarrow> old | Some v \<Rightarrow> Some v)"

definition kwargs_update :: "kwargs \<Rightarrow> kwargs \<Rightarrow> kwargs" where
  "kwargs_update kw params =
     \<lparr>kw_data = override (kw_data kw) (kw_data params),
      kw_headers = override (kw_headers kw) (kw_headers params),
      kw_params = override (kw_params kw) (kw_params params),
      kw_timeout = override (kw_timeout kw) (kw_timeout params),
      kw_rest = fold (\<lambda>(k, v) d. setitem d k v) (kw_rest params) (kw_rest kw)\<rparr>"

text \<open>
  The first block of \<^verbatim>\<open>_request\<close>: the default timeout, the client's global parameters
  over it, and the defaults of \<^verbatim>\<open>data\<close> and \<^verbatim>\<open>headers\<close>. It returns the keyword arguments
  with \<^verbatim>\<open>kwargs['data']\<close> and \<^verbatim>\<open>kwargs['headers']\<close> beside them.
\<close>

definition stage_kwargs :: "client \<Rightarrow> kwargs \<Rightarrow> kwargs \<times> pydict \<times> (string \<times> hval) list" where
  "stage_kwargs self kwargs =
     (let kwargs = kwargs\<lparr>kw_timeout := Some (PInt 10)\<rparr>;
          kwargs = (case requests_params self of
                      None \<Rightarrow> kwargs
                    | Some params \<Rightarrow> kwargs_update kwargs params);
          data = (case kw_data kwargs of None \<Rightarrow> [] | Some d \<Rightarrow> d);
          headers = (case kw_headers kwargs of None \<Rightarrow> [] | Some h \<Rightarrow> h)
      in (kwargs, data, headers))"

text \<open>
  What \<^verbatim>\<open>_request\<close> hands to \<^verbatim>\<open>getattr(self.session, method)(uri, **kwargs)\<close>. The
  \<^verbatim>\<open>data\<close> keyword is absent (deleted), the dict as staged, or the compact JSON string.
\<close>

datatype body = Form pydict | Raw string

record http_call =
  call_method :: string
  call_uri :: string
  call_data :: "body option"
  call_params :: "pydict option"
  call_headers :: "(string \<times> hval) list"
  call_timeout :: "pyval option"
  call_rest :: pydict

text \<open>
  \<^verbatim>\<open>_request\<close> up to the dispatch. \<^verbatim>\<open>nonce\<close> is the clock reading
  \<^verbatim>\<open>int(time.time() * 1000)\<close>, read only when the call is signed (the
  argument \<^verbatim>\<open>signed\<close>, here \<open>is_signed\<close>).
\<close>

definition request :: "externals \<Rightarrow> client \<Rightarrow> int \<Rightarrow> string \<Rightarrow> string \<Rightarrow> bool \<Rightarrow> kwargs \<Rightarrow> http_call" where
  "request ext self nonce method path is_signed kwargs0 =
     (case stage_kwargs self kwargs0 of (kwargs, data, headers) \<Rightarrow>
      let full_path = create_path path;
          uri = create_uri self full_path;
          headers = (if is_signed then
                       setitem (setitem headers ''KC-API-TIMESTAMP'' (HStr (str_int nonce)))
                         ''KC-API-SIGN'' (HBytes (generate_signature ext self nonce method full_path data))
                     else headers);
          (params, data_kw) = (if data \<noteq> [] \<and> method = ''get'' then (Some data, None)
                               else (kw_params kwargs, Some (Form data)));
          data_kw = (if is_signed \<and> method \<noteq> ''get'' \<and> data \<noteq> [] then Some (Raw (compact_json_dict ext data))
                     else data_kw)
      in \<lparr>call_method = method, call_uri = uri, call_data = data_kw, call_params = params,
          call_headers = headers, call_timeout = kw_timeout kwargs, call_rest = kw_rest kwargs\<rparr>)"

section \<open>Responses\<close>

text \<open>
  A decoded JSON body. Floats are outside the model. \<^verbatim>\<open>response.json()\<close> either returns
  the decoded value or raises \<^verbatim>\<open>ValueError\<close>; the field \<open>json_body\<close> is \<open>None\<close> when it
  raises. The field \<open>text_of\<close> is \<^verbatim>\<open>response.text\<close>.
\<close>

datatype json = JNull | JBool bool | JInt int | JStr string | JList "json list" | JObject "(string \<times> json) list"

record response =
  status_code :: int
  text_of :: string
  json_body :: "json option"

text \<open>
  Modelled from the spec: the exception classes of \<^verbatim>\<open>kucoin/exceptions.py\<close>, which is not
  among the sources. The API error carries the raw response, the request (decoding) error
  and the two parameter validation errors carry their messages. Constructing one raises
  nothing itself, and none of them derives from \<^verbatim>\<open>ValueError\<close>. \<^verbatim>\<open>TypeError\<close> and \<^verbatim>\<open>KeyError\<close>
  are Python's own.
\<close>

datatype error =
    KucoinAPIException response
  | KucoinRequestException string
  | MarketOrderException string
  | LimitOrderException string
  | TypeError
  | KeyError

definition then_do :: "error + 'a \<Rightarrow> ('a \<Rightarrow> error + 'b) \<Rightarrow> error + 'b" where
  "then_do r f = (case r of Inl e \<Rightarrow> Inl e | Inr v \<Rightarrow> f v)"

text \<open>\<^verbatim>\<open>not v\<close> is \<open>\<not> json_truthy v\<close>.\<close>

fun json_truthy :: "json \<Rightarrow> bool" where
  "json_truthy JNull = False"
| "json_truthy (JBool b) = b"
| "json_truthy (JInt i) = (i \<noteq> 0)"
| "json_truthy (JStr s) = (s \<noteq> [])"
| "json_truthy (JList xs) = (xs \<noteq> [])"
| "json_truthy (JObject kvs) = (kvs \<noteq> [])"

text \<open>\<^verbatim>\<open>sub in s\<close> for two strings.\<close>

fun contains_str :: "string \<Rightarrow> string \<Rightarrow> bool" where
  "contains_str [] sub = (sub = [])"
| "contains_str (c # s) sub = (startswith (c # s) sub \<or> contains_str s sub)"

text \<open>
  \<^verbatim>\<open>key in res\<close> for a string key: a key of a dict, an element of a list, a substring of a
  string; \<^verbatim>\<open>None\<close>, a bool and an int are not iterable.
\<close>

fun py_in :: "string \<Rightarrow> json \<Rightarrow> error + bool" where
  "py_in key (JObject kvs) = Inr (key \<in> set (keys kvs))"
| "py_in key (JList xs) = Inr (JStr key \<in> set xs)"
| "py_in key (JStr s) = Inr (contains_str s key)"
| "py_in key JNull = Inl TypeError"
| "py_in key (JBool b) = Inl TypeError"
| "py_in key (JInt i) = Inl TypeError"

text \<open>
  \<^verbatim>\<open>res[key]\<close> for a string key: the value of a dict, \<^verbatim>\<open>KeyError\<close> when it has none; a list
  and a string take integer indices only and the scalars are not subscriptable.
\<close>

fun py_getitem :: "json \<Rightarrow> string \<Rightarrow> error + json" where
  "py_getitem (JObject kvs) key = (case getitem kvs key of Some v \<Rightarrow> Inr v | None \<Rightarrow> Inl KeyError)"
| "py_getitem res key = Inl TypeError"

text \<open>
  \<^verbatim>\<open>_handle_response\<close>. The \<^verbatim>\<open>except ValueError\<close> catches the failure of \<^verbatim>\<open>response.json()\<close>;
  the API exceptions raised inside the \<^verbatim>\<open>try\<close> and a \<^verbatim>\<open>TypeError\<close> pass through it.
\<close>

definition handle_response :: "response \<Rightarrow> error + json" where
  "handle_response response =
     (if \<not> startswith (str_int (status_code response)) ''2'' then Inl (KucoinAPIException response)
      else case json_body response of
        None \<Rightarrow> Inl (KucoinRequestException (''Invalid Response: '' @ text_of response))
      | Some res \<Rightarrow>
          then_do (py_in ''code'' res) (\<lambda>has_code.
          then_do (if has_code then then_do (py_getitem res ''code'') (\<lambda>c. Inr (c \<noteq> JStr ''200000''))
                   else Inr False) (\<lambda>bad_code.
          if bad_code then Inl (KucoinAPIException response) else
          then_do (py_in ''success'' res) (\<lambda>has_success.
          then_do (if has_success then then_do (py_getitem res ''success'') (\<lambda>s. Inr (\<not> json_truthy s))
                   else Inr False) (\<lambda>failed.
          if failed then Inl (KucoinAPIException response) else
          then_do (py_in ''data'' res) (\<lambda>has_data.
          if has_data then py_getitem res ''data'' else Inr res))))))"

text \<open>
  The contract of the response handler in the specification's words, for every decoded
  body: a field is present when the decoded body is an object that has it, and \<^verbatim>\<open>success\<close>
  is false when Python's \<^verbatim>\<open>not\<close> holds of it. It is compared with \<open>handle_response\<close> below.
\<close>

definition field :: "json \<Rightarrow> string \<Rightarrow> json option" where
  "field res k = (case res of JObject kvs \<Rightarrow> getitem kvs k | _ \<Rightarrow> None)"

definition handle_response_spec :: "response \<Rightarrow> error + json" where
  "handle_response_spec r =
     (if \<not> (200 \<le> status_code r \<and> status_code r \<le> 299) then Inl (KucoinAPIException r)
      else case json_body r of
        None \<Rightarrow> Inl (KucoinRequestException (''Invalid Response: '' @ text_of r))
      | Some res \<Rightarrow>
          if (case field res ''code'' of Some c \<Rightarrow> c \<noteq> JStr ''200000'' | None \<Rightarrow> False) then
            Inl (KucoinAPIException r)
          else if (case field res ''success'' of Some s \<Rightarrow> \<not> json_truthy s | None \<Rightarrow> False) then
            Inl (KucoinAPIException r)
          else (case field res ''data'' of Some d \<Rightarrow> Inr d | None \<Rightarrow> Inr res))"

section \<open>Endpoint builders\<close>

text \<open>
  An endpoint method ends in \<^verbatim>\<open>self._get(path, signed, data=data)\<close>, \<^verbatim>\<open>self._post(...)\<close>
  or \<^verbatim>\<open>self._delete(...)\<close>, which pass their arguments on to \<^verbatim>\<open>_request\<close> with the
  method's name. The model of an endpoint method returns that call, or the exception it
  raises before it.
\<close>

record api_call =
  req_method :: string
  req_path :: string
  req_signed :: bool
  req_data :: pydict

definition get :: "string \<Rightarrow> bool \<Rightarrow> pydict \<Rightarrow> api_call" where
  "get path is_signed data = \<lparr>req_method = ''get'', req_path = path, req_signed = is_signed, req_data = data\<rparr>"

definition post :: "string \<Rightarrow> bool \<Rightarrow> pydict \<Rightarrow> api_call" where
  "post path is_signed data = \<lparr>req_method = ''post'', req_path = path, req_signed = is_signed, req_data = data\<rparr>"

definition delete :: "string \<Rightarrow> bool \<Rightarrow> pydict \<Rightarrow> api_call" where
  "delete path is_signed data = \<lparr>req_method = ''delete'', req_path = path, req_signed = is_signed, req_data = data\<rparr>"

text \<open>The call as \<^verbatim>\<open>_request\<close> receives it: \<^verbatim>\<open>data\<close> is the only keyword argument.\<close>

definition send :: "externals \<Rightarrow> client \<Rightarrow> int \<Rightarrow> api_call \<Rightarrow> http_call" where
  "send ext self nonce c =
     request ext self nonce (req_method c) (req_path c) (req_signed c)
       \<lparr>kw_data = Some (req_data c), kw_headers = None, kw_params = None, kw_timeout = None, kw_rest = []\<rparr>"

definition ORDER_LIMIT :: string where
  "ORDER_LIMIT = ''limit''"

definition ORDER_MARKET :: string where
  "ORDER_MARKET = ''market''"

definition TIMEINFORCE_GOOD_TILL_TIME :: string where
  "TIMEINFORCE_GOOD_TILL_TIME = ''GTT''"

text \<open>
  In the builders below \<open>uuid\<close> is the string that \<^verbatim>\<open>flat_uuid()\<close> of
  \<^verbatim>\<open>kucoin/utils.py\<close> returns when the method calls it.
\<close>

definition create_inner_transfer :: "string \<Rightarrow> pyval \<Rightarrow> pyval \<Rightarrow> pyval \<Rightarrow> pyval \<Rightarrow> api_call" where
  "create_inner_transfer uuid from_account_id to_account_id amount order_id =
     (let data = [(''payAccountId'', from_account_id), (''recAccountId'', to_account_id),
                  (''amount'', amount)];
          data = (if truthy order_id then setitem data ''clientOid'' order_id
                  else setitem data ''clientOid'' (PStr uuid))
      in post ''accounts/inner-transfer'' True data)"

definition create_market_order ::
  "string \<Rightarrow> pyval \<Rightarrow> pyval \<Rightarrow> pyval \<Rightarrow> pyval \<Rightarrow> pyval \<Rightarrow> pyval \<Rightarrow> pyval \<Rightarrow> error + api_call" where
  "create_market_order uuid symbol side size' funds client_oid remark stp =
     (if \<not> truthy size' \<and> \<not> truthy funds then
        Inl (MarketOrderException ''Need size or fund parameter'')
      else if truthy size' \<and> truthy funds then
        Inl (MarketOrderException ''Need size or fund parameter not both'')
      else
        let data = [(''side'', side), (''symbol'', symbol), (''type'', PStr ORDER_MARKET)];
            data = (if truthy size' then setitem data ''size'' size' else data);
            data = (if truthy funds then setitem data ''funds'' funds else data);
            data = (if truthy client_oid then setitem data ''clientOid'' client_oid
                    else setitem data ''clientOid'' (PStr uuid));
            data = (if truthy remark then setitem data ''remark'' remark else data);
            data = (if truthy stp then setitem data ''stp'' stp else data)
        in Inr (post ''orders'' True data))"

definition create_limit_order ::
  "string \<Rightarrow> pyval \<Rightarrow> pyval \<Rightarrow> pyval \<Rightarrow> pyval \<Rightarrow> pyval \<Rightarrow> pyval \<Rightarrow> pyval \<Rightarrow> pyval \<Rightarrow> pyval \<Rightarrow> pyval
     \<Rightarrow> pyval \<Rightarrow> pyval \<Rightarrow> pyval \<Rightarrow> pyval \<Rightarrow> pyval \<Rightarrow> error + api_call" where
  \<open>create_limit_order uuid symbol side price size' client_oid remark time_in_force stop stop_price
       stp cancel_after post_only hidden iceberg visible_size =
     (if truthy stop \<and> \<not> truthy stop_price then
        Inl (LimitOrderException ''Stop order needs stop_price'')
      else if truthy stop_price \<and> \<not> truthy stop then
        Inl (LimitOrderException ''Stop order type required with stop_price'')
      else if truthy cancel_after \<and> time_in_force \<noteq> PStr TIMEINFORCE_GOOD_TILL_TIME then
        Inl (LimitOrderException ''Cancel after only works with time_in_force = "GTT"'')
      else if truthy hidden \<and> truthy iceberg then
        Inl (LimitOrderException ''Order can be either "hidden" or "iceberg"'')
      else if truthy iceberg \<and> \<not> truthy visible_size then
        Inl (LimitOrderException ''Iceberg order requires visible_size'')
      else
        let data = [(''symbol'', symbol), (''side'', side), (''type'', PStr ORDER_LIMIT),
                    (''price'', price), (''size'', size')];
            data = (if truthy client_oid then setitem data ''clientOid'' client_oid
                    else setitem data ''clientOid'' (PStr uuid));
            data = (if truthy remark then setitem data ''remark'' remark else data);
            data = (if truthy stp then setitem data ''stp'' stp else data);
            data = (if truthy time_in_force then setitem data ''timeInForce'' time_in_force else data);
            data = (if truthy cancel_after then setitem data ''cancelAfter'' cancel_after else data);
            data = (if truthy post_only then setitem data ''postOnly'' post_only else data);
            data = (if truthy stop then setitem (setitem data ''stop'' stop) ''stopPrice'' stop_price
                    else data);
            data = (if truthy hidden then setitem data ''hidden'' hidden else data);
            data = (if truthy iceberg then setitem (setitem data ''iceberg'' iceberg) ''visible_size'' visible_size
                    else data)
        in Inr (post ''orders'' True data))\<close>

definition cancel_all_orders :: "pyval \<Rightarrow> api_call" where
  "cancel_all_orders symbol =
     (let data = [];
          data = (if symbol \<noteq> PNone then setitem data ''symbol'' symbol else data)
      in delete ''orders'' True data)"

text \<open>
  \<^verbatim>\<open>calendar.timegm(datetime.utcnow().date().timetuple())\<close>, for the clock reading
  \<open>utcnow\<close> in whole seconds since the epoch: \<^verbatim>\<open>date()\<close> keeps the UTC day of the reading,
  its time tuple is that day's midnight, and \<^verbatim>\<open>timegm\<close> gives the midnight's Unix time.
\<close>

definition start_of_utc_day :: "int \<Rightarrow> int" where
  "start_of_utc_day utcnow = 86400 * (utcnow div 86400)"

text \<open>
  \<^verbatim>\<open>get_kline_data\<close>. \<open>utcnow\<close> is the reading of \<^verbatim>\<open>datetime.utcnow()\<close> and \<open>now\<close> the value
  of \<^verbatim>\<open>int(time.time())\<close>, both in seconds since the epoch.
\<close>

definition get_kline_data :: "int \<Rightarrow> int \<Rightarrow> pyval \<Rightarrow> pyval \<Rightarrow> pyval \<Rightarrow> pyval \<Rightarrow> api_call" where
  "get_kline_data utcnow now symbol kline_type start end' =
     (let data = [(''symbol'', symbol)];
          data = (if kline_type \<noteq> PNone then setitem data ''type'' kline_type else data);
          data = (if start \<noteq> PNone then setitem data ''startAt'' start
                  else setitem data ''startAt'' (PInt (start_of_utc_day utcnow)));
          data = (if end' \<noteq> PNone then setitem data ''endAt'' end'
                  else setitem data ''endAt'' (PInt now))
      in get ''market/candles'' False data)"

text \<open>
  The statement \<^verbatim>\<open>if c: data[k] = v\<close> as a function of the dict, for stating what the
  builders above compute.
\<close>

definition set_if :: "bool \<Rightarrow> pydict \<Rightarrow> string \<Rightarrow> pyval \<Rightarrow> pydict" where
  "set_if c d k v = (if c then setitem d k v else d)"

section \<open>Auxiliary facts\<close>

lemma getitem_setitem_same: "getitem (setitem d k v) k = Some v"
  by (induction d) (auto simp: getitem_def)

lemma keys_setitem: "keys (setitem d k v) = (if k \<in> set (keys d) then keys d else keys d @ [k])"
  by (induction d) (auto simp: keys_def rev_image_eqI)

lemma join_Cons: "join sep (x # xs) = x @ concat (map (\<lambda>y. sep @ y) xs)"
  by (induction xs arbitrary: x) auto

lemma upper_get: "upper ''get'' = ''GET''"
  by code_simp

lemma upper_post: "upper ''post'' = ''POST''"
  by code_simp

lemma upper_delete: "upper ''delete'' = ''DELETE''"
  by code_simp

lemma str_int_example: "str_int 1234567890000 = ''1234567890000''"
  by (simp add: str_int_def str_nat.simps digit_char_def)

lemma stage_kwargs_plain:
  "requests_params self = None \<Longrightarrow>
   stage_kwargs self \<lparr>kw_data = Some d, kw_headers = None, kw_params = None, kw_timeout = None, kw_rest = []\<rparr> =
     (\<lparr>kw_data = Some d, kw_headers = None, kw_params = None, kw_timeout = Some (PInt 10), kw_rest = []\<rparr>, d, [])"
  by (simp add: stage_kwargs_def)

section \<open>The signature\<close>

text \<open>
  Claim C1. For every secret, timestamp, method, path and data mapping, the signature is
  \<^verbatim>\<open>base64(HMAC-SHA256(key = secret, message = UTF-8 bytes of timestamp + METHOD + endpoint + body))\<close>:
  the endpoint is the path, followed by \<^verbatim>\<open>?\<close> and the query string when the method is
  \<^verbatim>\<open>get\<close> and the data is not empty; the body is the compact JSON of the data when the
  method is not \<^verbatim>\<open>get\<close> and the data is not empty, and empty otherwise. The method is
  compared with the lower-case name \<^verbatim>\<open>get\<close>, as \<^verbatim>\<open>_get\<close> passes it. The signature is a
  function of these inputs alone: the signer reads no clock and no random source, and of
  the client the secret only, so two clients with the same secret sign equal inputs alike.
\<close>

theorem generate_signature_canonical:
  "generate_signature ext self nonce method path data =
     b64encode ext (hmac_sha256 ext (encode_utf8 (API_SECRET self))
       (encode_utf8 (str_int nonce @ upper method
          @ (if method = ''get'' \<and> data \<noteq> [] then path @ ''?'' @ get_params_for_sig data else path)
          @ (if method \<noteq> ''get'' \<and> data \<noteq> [] then compact_json_dict ext data else ''''))))
   \<and> (API_SECRET self' = API_SECRET self \<longrightarrow>
        generate_signature ext self' nonce method path data =
        generate_signature ext self nonce method path data)"
  by (simp add: generate_signature_def sig_str_def endpoint_and_data_json_def)

text \<open>
  The inputs of the specification's example: the string signed is
  \<^verbatim>\<open>1234567890000GET/api/v1/accounts\<close>, for the production and for the sandbox client.
\<close>

theorem generate_signature_canonical_witness:
  "\<forall>ext. generate_signature ext (Client ''key'' ''s3cr3t'' ''pass'' False None) 1234567890000
       ''get'' ''/api/v1/accounts'' [] =
     b64encode ext (hmac_sha256 ext (encode_utf8 ''s3cr3t'')
       (encode_utf8 ''1234567890000GET/api/v1/accounts''))
   \<and> generate_signature ext (Client ''key2'' ''s3cr3t'' ''word'' True None) 1234567890000
       ''get'' ''/api/v1/accounts'' [] =
     generate_signature ext (Client ''key'' ''s3cr3t'' ''pass'' False None) 1234567890000
       ''get'' ''/api/v1/accounts'' []"
  using generate_signature_canonical [of _ "Client ''key'' ''s3cr3t'' ''pass'' False None"
      1234567890000 "''get''" "''/api/v1/accounts''" "[]" "Client ''key2'' ''s3cr3t'' ''word'' True None"]
  by (simp add: Client_def str_int_example upper_get)

text \<open>
  Claim C2. For a GET request the endpoint in the string to sign is the path when the
  mapping is empty, and otherwise the path, \<^verbatim>\<open>?\<close>, and \<^verbatim>\<open>k1=v1&k2=v2&...\<close> with the keys in
  the order of the mapping: the first pair, then each further pair after a \<^verbatim>\<open>&\<close>, nothing
  sorted. The string to sign is the timestamp, \<^verbatim>\<open>GET\<close> and this endpoint.
\<close>

theorem get_endpoint_query_in_insertion_order:
  "fst (endpoint_and_data_json ext ''get'' path data) =
     (case data of
        [] \<Rightarrow> path
      | (k, v) # rest \<Rightarrow>
          path @ ''?'' @ k @ ''='' @ py_str v @ concat (map (\<lambda>(k, v). ''&'' @ k @ ''='' @ py_str v) rest))
   \<and> sig_str ext nonce ''get'' path data =
       str_int nonce @ ''GET'' @ fst (endpoint_and_data_json ext ''get'' path data)"
  by (auto simp: endpoint_and_data_json_def sig_str_def get_params_for_sig_def join_Cons upper_get
      comp_def case_prod_unfold split: list.splits)

text \<open>Three parameters whose keys are not in alphabetical order, and the empty mapping.\<close>

theorem get_endpoint_query_in_insertion_order_witness:
  "\<forall>ext. fst (endpoint_and_data_json ext ''get'' ''/api/v1/withdrawals''
       [(''status'', PStr ''SUCCESS''), (''currency'', PStr ''BTC''), (''pageSize'', PInt 50)]) =
     ''/api/v1/withdrawals?status=SUCCESS&currency=BTC&pageSize=50''
   \<and> fst (endpoint_and_data_json ext ''get'' ''/api/v1/accounts'' []) = ''/api/v1/accounts''"
  using get_endpoint_query_in_insertion_order [of _ "''/api/v1/withdrawals''"
      "[(''status'', PStr ''SUCCESS''), (''currency'', PStr ''BTC''), (''pageSize'', PInt 50)]"]
    get_endpoint_query_in_insertion_order [of _ "''/api/v1/accounts''" "[]"]
  by (simp add: str_int_def str_nat.simps digit_char_def)

text \<open>
  Claim C4. For a signed request whose method is not \<^verbatim>\<open>get\<close> and whose data, as staged by
  \<^verbatim>\<open>_request\<close>, is not empty, the body handed to the HTTP session is the string that is the
  body component of the string to sign: both are \<^verbatim>\<open>compact_json_dict\<close> of the staged data,
  and the \<^verbatim>\<open>KC-API-SIGN\<close> header is the signature of timestamp, method, versioned path and
  that body.
\<close>

theorem signed_body_is_transmitted_body:
  assumes "method \<noteq> ''get''" and "stage_kwargs self kwargs = (kw, data, headers)" and "data \<noteq> []"
  shows "call_data (request ext self nonce method path True kwargs) =
           Some (Raw (snd (endpoint_and_data_json ext method (create_path path) data)))
       \<and> snd (endpoint_and_data_json ext method (create_path path) data) = compact_json_dict ext data
       \<and> getitem (call_headers (request ext self nonce method path True kwargs)) ''KC-API-SIGN'' =
           Some (HBytes (b64encode ext (hmac_sha256 ext (encode_utf8 (API_SECRET self))
             (encode_utf8 (str_int nonce @ upper method @ create_path path @ compact_json_dict ext data)))))"
  using assms
  by (simp add: request_def Let_def endpoint_and_data_json_def getitem_setitem_same generate_signature_def
      sig_str_def)

text \<open>\<^verbatim>\<open>create_account('main', 'BTC')\<close>: a signed POST of two parameters.\<close>

theorem signed_body_is_transmitted_body_witness:
  "\<forall>ext. call_data (send ext (Client ''key'' ''s3cr3t'' ''pass'' False None) 1234567890000
        (post ''accounts'' True [(''type'', PStr ''main''), (''currency'', PStr ''BTC'')])) =
      Some (Raw (compact_json_dict ext [(''type'', PStr ''main''), (''currency'', PStr ''BTC'')]))
    \<and> getitem (call_headers (send ext (Client ''key'' ''s3cr3t'' ''pass'' False None) 1234567890000
        (post ''accounts'' True [(''type'', PStr ''main''), (''currency'', PStr ''BTC'')]))) ''KC-API-SIGN'' =
      Some (HBytes (b64encode ext (hmac_sha256 ext (encode_utf8 ''s3cr3t'')
        (encode_utf8 (''1234567890000POST/api/v1/accounts''
           @ compact_json_dict ext [(''type'', PStr ''main''), (''currency'', PStr ''BTC'')])))))"
proof
  fix ext
  let ?self = "Client ''key'' ''s3cr3t'' ''pass'' False None"
  let ?d = "[(''type'', PStr ''main''), (''currency'', PStr ''BTC'')]"
  have st: "stage_kwargs ?self \<lparr>kw_data = Some ?d, kw_headers = None, kw_params = None, kw_timeout = None, kw_rest = []\<rparr> =
     (\<lparr>kw_data = Some ?d, kw_headers = None, kw_params = None, kw_timeout = Some (PInt 10), kw_rest = []\<rparr>, ?d, [])"
    by (rule stage_kwargs_plain) (simp add: Client_def)
  have m: "''post'' \<noteq> ''get''" by simp
  have ne: "?d \<noteq> []" by simp
  show "call_data (send ext ?self 1234567890000 (post ''accounts'' True ?d)) =
      Some (Raw (compact_json_dict ext ?d))
    \<and> getitem (call_headers (send ext ?self 1234567890000 (post ''accounts'' True ?d))) ''KC-API-SIGN'' =
      Some (HBytes (b64encode ext (hmac_sha256 ext (encode_utf8 ''s3cr3t'')
        (encode_utf8 (''1234567890000POST/api/v1/accounts'' @ compact_json_dict ext ?d)))))"
    using signed_body_is_transmitted_body [OF m st ne, where ext = ext and nonce = 1234567890000 and path = "''accounts''"]
    by (simp add: send_def post_def str_int_example upper_post create_path_def API_VERSION_def Client_def)
qed

text \<open>
  Claim C5. For a signed request whose method is not \<^verbatim>\<open>get\<close> and whose staged data is
  empty, the body component of the string to sign is the empty string (not \<^verbatim>\<open>{}\<close>): the
  string signed is timestamp, method and versioned path, and the \<^verbatim>\<open>data\<close> handed to the
  session is the empty dict itself, not a JSON string.
\<close>

theorem empty_data_signs_empty_body:
  assumes "method \<noteq> ''get''" and "stage_kwargs self kwargs = (kw, [], headers)"
  shows "snd (endpoint_and_data_json ext method (create_path path) []) = ''''
       \<and> sig_str ext nonce method (create_path path) [] = str_int nonce @ upper method @ create_path path
       \<and> getitem (call_headers (request ext self nonce method path True kwargs)) ''KC-API-SIGN'' =
           Some (HBytes (b64encode ext (hmac_sha256 ext (encode_utf8 (API_SECRET self))
             (encode_utf8 (str_int nonce @ upper method @ create_path path)))))
       \<and> call_data (request ext self nonce method path True kwargs) = Some (Form [])"
  using assms
  by (simp add: request_def Let_def endpoint_and_data_json_def getitem_setitem_same generate_signature_def
      sig_str_def)

text \<open>\<^verbatim>\<open>cancel_all_orders()\<close>: a signed DELETE with no data.\<close>

theorem empty_data_signs_empty_body_witness:
  "\<forall>ext. sig_str ext 1234567890000 ''delete'' (create_path ''orders'') [] = ''1234567890000DELETE/api/v1/orders''
     \<and> call_data (send ext (Client ''key'' ''s3cr3t'' ''pass'' False None) 1234567890000
          (cancel_all_orders PNone)) = Some (Form [])"
proof
  fix ext
  let ?self = "Client ''key'' ''s3cr3t'' ''pass'' False None"
  have st: "stage_kwargs ?self \<lparr>kw_data = Some [], kw_headers = None, kw_params = None, kw_timeout = None, kw_rest = []\<rparr> =
     (\<lparr>kw_data = Some [], kw_headers = None, kw_params = None, kw_timeout = Some (PInt 10), kw_rest = []\<rparr>, [], [])"
    by (rule stage_kwargs_plain) (simp add: Client_def)
  have m: "''delete'' \<noteq> ''get''" by simp
  show "sig_str ext 1234567890000 ''delete'' (create_path ''orders'') [] = ''1234567890000DELETE/api/v1/orders''
     \<and> call_data (send ext ?self 1234567890000 (cancel_all_orders PNone)) = Some (Form [])"
    using empty_data_signs_empty_body [OF m st, where ext = ext and nonce = 1234567890000 and path = "''orders''"]
    by (simp add: send_def delete_def cancel_all_orders_def str_int_example upper_delete create_path_def API_VERSION_def)
qed

section \<open>Response handling\<close>

lemma getitem_setitem: "getitem (setitem d k v) k' = (if k' = k then Some v else getitem d k')"
  by (induction d) (auto simp: getitem_def)

lemma getitem_Cons: "getitem ((k, v) # d) k' = (if k' = k then Some v else getitem d k')"
  by (simp add: getitem_def)

lemma getitem_Nil: "getitem [] k' = None"
  by (simp add: getitem_def)

lemma in_keys_iff: "k \<in> set (keys kvs) \<longleftrightarrow> getitem kvs k \<noteq> None"
  by (simp add: keys_def getitem_def map_of_eq_None_iff)

lemma digit_char_2: "d < 10 \<Longrightarrow> digit_char d = CHR ''2'' \<longleftrightarrow> d = 2"
proof -
  assume "d < 10"
  then consider "d = 0" | "d = 1" | "d = 2" | "d = 3" | "d = 4" | "d = 5" | "d = 6" | "d = 7"
    | "d = 8" | "d = 9"
    by atomize_elim arith
  then show ?thesis
    by cases (simp_all add: digit_char_def)
qed

lemma str_nat_three_digits:
  assumes "100 \<le> n" and "n \<le> 999"
  shows "str_nat n = [digit_char (n div 100), digit_char (n div 10 mod 10), digit_char (n mod 10)]"
proof -
  have a: "\<not> n < 10" using assms by simp
  have b: "\<not> n div 10 < 10" using assms by simp
  have c: "n div 10 div 10 < 10" using assms by simp
  have d: "n div 10 div 10 = n div 100" by (simp add: div_mult2_eq)
  show ?thesis
    using a b c d
    by (simp add: str_nat.simps [of n] str_nat.simps [of "n div 10"] str_nat.simps [of "n div 100"])
qed

lemma div_100_eq_2: "(n::nat) div 100 = 2 \<longleftrightarrow> 200 \<le> n \<and> n \<le> 299"
proof -
  have a: "2 \<le> n div 100 \<longleftrightarrow> 200 \<le> n"
    by (simp add: less_eq_div_iff_mult_less_eq)
  have b: "n div 100 < 3 \<longleftrightarrow> n < 300"
    by (simp add: div_less_iff_less_mult)
  have "n div 100 = 2 \<longleftrightarrow> 2 \<le> n div 100 \<and> n div 100 < 3"
    by (simp add: eq_iff less_Suc_eq_le numeral_3_eq_3)
  then show ?thesis
    unfolding a b by auto
qed

text \<open>
  For a three-digit status code, \<^verbatim>\<open>str(status_code).startswith('2')\<close> is the test that the
  code is in the range 200 to 299.
\<close>

lemma startswith_2_iff:
  assumes "100 \<le> sc" and "sc \<le> 999"
  shows "startswith (str_int sc) ''2'' \<longleftrightarrow> 200 \<le> sc \<and> sc \<le> 299"
proof -
  define n where "n = nat sc"
  have n: "100 \<le> n" "n \<le> 999" and sc: "sc = int n"
    using assms by (simp_all add: n_def)
  have s: "str_int sc = str_nat n"
    using assms by (simp add: str_int_def n_def)
  have d: "n div 100 < 10"
    using n by (simp add: div_less_iff_less_mult)
  have "startswith (str_int sc) ''2'' \<longleftrightarrow> digit_char (n div 100) = CHR ''2''"
    by (simp add: s str_nat_three_digits [OF n])
  also have "\<dots> \<longleftrightarrow> n div 100 = 2"
    using d by (rule digit_char_2)
  also have "\<dots> \<longleftrightarrow> 200 \<le> n \<and> n \<le> 299"
    by (rule div_100_eq_2)
  also have "\<dots> \<longleftrightarrow> 200 \<le> sc \<and> sc \<le> 299"
    by (auto simp: sc)
  finally show ?thesis .
qed

lemma handle_decoded_object:
  assumes "startswith (str_int (status_code r)) ''2''" and "json_body r = Some (JObject kvs)"
  shows "handle_response r =
       (if (\<exists>c. getitem kvs ''code'' = Some c \<and> c \<noteq> JStr ''200000'')
           \<or> (\<exists>s. getitem kvs ''success'' = Some s \<and> \<not> json_truthy s)
        then Inl (KucoinAPIException r)
        else case getitem kvs ''data'' of Some d \<Rightarrow> Inr d | None \<Rightarrow> Inr (JObject kvs))"
  using assms
  by (auto simp: handle_response_def then_do_def in_keys_iff split: option.splits)

lemma str_200: "str_int 200 = ''200''"
  by (simp add: str_int_def str_nat.simps digit_char_def)

text \<open>
  Claim C3, as stated, says of every response: an API error whenever the status is not
  2xx; on a 2xx status whose body fails to decode, a request error carrying the text; on
  a decoded body, an API error if \<^verbatim>\<open>code\<close> is present and not \<^verbatim>\<open>"200000"\<close> or \<^verbatim>\<open>success\<close> is
  present and false, and otherwise the \<^verbatim>\<open>data\<close> field when present, else the whole decoded
  value. The handler tests \<^verbatim>\<open>'code' in res\<close> on whatever \<^verbatim>\<open>response.json()\<close> returned. For
  the body \<^verbatim>\<open>null\<close> with status 200 the decoded value is \<^verbatim>\<open>None\<close>, the membership test raises
  \<^verbatim>\<open>TypeError\<close>, which \<^verbatim>\<open>except ValueError\<close> does not catch: the handler neither returns the
  decoded value, as the claim has it, nor raises one of the client's errors.
\<close>

theorem handle_response_scalar_body_counterexample:
  "handle_response \<lparr>status_code = 200, text_of = ''null'', json_body = Some JNull\<rparr> = Inl TypeError
   \<and> handle_response_spec \<lparr>status_code = 200, text_of = ''null'', json_body = Some JNull\<rparr> = Inr JNull"
  by (simp add: handle_response_def handle_response_spec_def field_def then_do_def str_200)

text \<open>
  Claim C3, amended. For every response with a three-digit HTTP status code: when the
  status is not in 200..299 the handler raises an API error carrying the response,
  whatever the body (it is not decoded); on a 2xx status whose body fails to decode it
  raises a request error carrying the response text; on a 2xx status whose body decodes
  to a JSON object it raises an API error if \<^verbatim>\<open>code\<close> is present and not the string
  \<^verbatim>\<open>"200000"\<close>, or if \<^verbatim>\<open>success\<close> is present and false in Python's sense (\<^verbatim>\<open>not res['success']\<close>),
  and otherwise returns the value of \<^verbatim>\<open>data\<close> when present, else the whole object.
\<close>

theorem handle_response_envelope:
  assumes "100 \<le> status_code r" and "status_code r \<le> 999"
  shows "(\<not> (200 \<le> status_code r \<and> status_code r \<le> 299) \<longrightarrow>
            handle_response r = Inl (KucoinAPIException r))
       \<and> (200 \<le> status_code r \<and> status_code r \<le> 299 \<and> json_body r = None \<longrightarrow>
            handle_response r = Inl (KucoinRequestException (''Invalid Response: '' @ text_of r)))
       \<and> (200 \<le> status_code r \<and> status_code r \<le> 299 \<and> json_body r = Some (JObject kvs) \<longrightarrow>
            handle_response r =
              (if (\<exists>c. getitem kvs ''code'' = Some c \<and> c \<noteq> JStr ''200000'')
                  \<or> (\<exists>s. getitem kvs ''success'' = Some s \<and> \<not> json_truthy s)
               then Inl (KucoinAPIException r)
               else case getitem kvs ''data'' of Some d \<Rightarrow> Inr d | None \<Rightarrow> Inr (JObject kvs)))"
proof -
  note sw = startswith_2_iff [OF assms]
  have 1: "\<not> (200 \<le> status_code r \<and> status_code r \<le> 299) \<longrightarrow>
            handle_response r = Inl (KucoinAPIException r)"
    using sw by (simp add: handle_response_def)
  have 2: "200 \<le> status_code r \<and> status_code r \<le> 299 \<and> json_body r = None \<longrightarrow>
            handle_response r = Inl (KucoinRequestException (''Invalid Response: '' @ text_of r))"
    using sw by (simp add: handle_response_def)
  have 3: "200 \<le> status_code r \<and> status_code r \<le> 299 \<and> json_body r = Some (JObject kvs) \<longrightarrow>
            handle_response r =
              (if (\<exists>c. getitem kvs ''code'' = Some c \<and> c \<noteq> JStr ''200000'')
                  \<or> (\<exists>s. getitem kvs ''success'' = Some s \<and> \<not> json_truthy s)
               then Inl (KucoinAPIException r)
               else case getitem kvs ''data'' of Some d \<Rightarrow> Inr d | None \<Rightarrow> Inr (JObject kvs))"
    using sw handle_decoded_object [of r kvs] by blast
  from 1 2 3 show ?thesis by blast
qed

text \<open>
  The four responses of the specification: a success envelope with \<^verbatim>\<open>data\<close>, an error
  code, a status 500, and a status 200 whose body is not JSON.
\<close>

theorem handle_response_envelope_witness:
  \<open>handle_response \<lparr>status_code = 200, text_of = ''{"code":"200000","data":{"x":1}}'',
       json_body = Some (JObject [(''code'', JStr ''200000''), (''data'', JObject [(''x'', JInt 1)])])\<rparr> =
     Inr (JObject [(''x'', JInt 1)])
   \<and> handle_response \<lparr>status_code = 200, text_of = ''{"code":"400001","msg":"bad"}'',
       json_body = Some (JObject [(''code'', JStr ''400001''), (''msg'', JStr ''bad'')])\<rparr> =
     Inl (KucoinAPIException \<lparr>status_code = 200, text_of = ''{"code":"400001","msg":"bad"}'',
       json_body = Some (JObject [(''code'', JStr ''400001''), (''msg'', JStr ''bad'')])\<rparr>)
   \<and> handle_response \<lparr>status_code = 500, text_of = ''{"data":1}'', json_body = Some (JObject [(''data'', JInt 1)])\<rparr> =
     Inl (KucoinAPIException \<lparr>status_code = 500, text_of = ''{"data":1}'', json_body = Some (JObject [(''data'', JInt 1)])\<rparr>)
   \<and> handle_response \<lparr>status_code = 200, text_of = ''<html>'', json_body = None\<rparr> =
     Inl (KucoinRequestException ''Invalid Response: <html>'')\<close>
  using
    handle_response_envelope [of \<open>\<lparr>status_code = 200, text_of = ''{"code":"200000","data":{"x":1}}'',
       json_body = Some (JObject [(''code'', JStr ''200000''), (''data'', JObject [(''x'', JInt 1)])])\<rparr>\<close>
       "[(''code'', JStr ''200000''), (''data'', JObject [(''x'', JInt 1)])]"]
    handle_response_envelope [of \<open>\<lparr>status_code = 200, text_of = ''{"code":"400001","msg":"bad"}'',
       json_body = Some (JObject [(''code'', JStr ''400001''), (''msg'', JStr ''bad'')])\<rparr>\<close>
       "[(''code'', JStr ''400001''), (''msg'', JStr ''bad'')]"]
    handle_response_envelope [of \<open>\<lparr>status_code = 500, text_of = ''{"data":1}'', json_body = Some (JObject [(''data'', JInt 1)])\<rparr>\<close> "[]"]
    handle_response_envelope [of "\<lparr>status_code = 200, text_of = ''<html>'', json_body = None\<rparr>" "[]"]
  by (simp add: getitem_Cons getitem_Nil)

section \<open>Orders, transfers and candles\<close>

lemma keys_Cons: "keys ((k, v) # d) = k # keys d"
  by (simp add: keys_def)

lemma keys_Nil: "keys [] = []"
  by (simp add: keys_def)

lemma if_setitem: "(if c then setitem d k v else d) = set_if c d k v"
  by (simp add: set_if_def)

lemma if_setitem2: "(if c then setitem (setitem d k v) j w else d) = set_if c (set_if c d k v) j w"
  by (simp add: set_if_def)

lemma if_setitem_else: "(if c then setitem d k v else setitem d k w) = setitem d k (if c then v else w)"
  by simp

lemma getitem_set_if:
  "getitem (set_if c d k v) k' = (if c \<and> k' = k then Some v else getitem d k')"
  by (simp add: set_if_def getitem_setitem)

lemma create_limit_order_unfold:
  \<open>create_limit_order uuid symbol side price size' client_oid remark time_in_force stop stop_price
       stp cancel_after post_only hidden iceberg visible_size =
     (if truthy stop \<and> \<not> truthy stop_price then
        Inl (LimitOrderException ''Stop order needs stop_price'')
      else if truthy stop_price \<and> \<not> truthy stop then
        Inl (LimitOrderException ''Stop order type required with stop_price'')
      else if truthy cancel_after \<and> time_in_force \<noteq> PStr TIMEINFORCE_GOOD_TILL_TIME then
        Inl (LimitOrderException ''Cancel after only works with time_in_force = "GTT"'')
      else if truthy hidden \<and> truthy iceberg then
        Inl (LimitOrderException ''Order can be either "hidden" or "iceberg"'')
      else if truthy iceberg \<and> \<not> truthy visible_size then
        Inl (LimitOrderException ''Iceberg order requires visible_size'')
      else Inr (post ''orders'' True
        (set_if (truthy iceberg)
          (set_if (truthy iceberg)
            (set_if (truthy hidden)
              (set_if (truthy stop)
                (set_if (truthy stop)
                  (set_if (truthy post_only)
                    (set_if (truthy cancel_after)
                      (set_if (truthy time_in_force)
                        (set_if (truthy stp)
                          (set_if (truthy remark)
                            (setitem [(''symbol'', symbol), (''side'', side), (''type'', PStr ORDER_LIMIT),
                                      (''price'', price), (''size'', size')]
                               ''clientOid'' (if truthy client_oid then client_oid else PStr uuid))
                            ''remark'' remark)
                          ''stp'' stp)
                        ''timeInForce'' time_in_force)
                      ''cancelAfter'' cancel_after)
                    ''postOnly'' post_only)
                  ''stop'' stop)
                ''stopPrice'' stop_price)
              ''hidden'' hidden)
            ''iceberg'' iceberg)
          ''visible_size'' visible_size)))\<close>
  unfolding create_limit_order_def
  by (simp only: if_setitem if_setitem2 if_setitem_else Let_def)


lemma create_market_order_unfold:
  "create_market_order uuid symbol side size' funds client_oid remark stp =
     (if \<not> truthy size' \<and> \<not> truthy funds then
        Inl (MarketOrderException ''Need size or fund parameter'')
      else if truthy size' \<and> truthy funds then
        Inl (MarketOrderException ''Need size or fund parameter not both'')
      else Inr (post ''orders'' True
        (set_if (truthy stp)
          (set_if (truthy remark)
            (setitem
              (set_if (truthy funds)
                (set_if (truthy size')
                  [(''side'', side), (''symbol'', symbol), (''type'', PStr ORDER_MARKET)]
                  ''size'' size')
                ''funds'' funds)
              ''clientOid'' (if truthy client_oid then client_oid else PStr uuid))
            ''remark'' remark)
          ''stp'' stp)))"
  unfolding create_market_order_def
  by (simp only: if_setitem if_setitem_else Let_def)

lemma req_data_post: "req_data (post p s d) = d"
  by (simp add: post_def)

text \<open>
  Claim C6. A parameter counts as given when it is truthy, as the method tests it
  (\<^verbatim>\<open>if not size and not funds\<close>, \<^verbatim>\<open>if size and funds\<close>, \<^verbatim>\<open>if client_oid\<close>).
  \<^verbatim>\<open>create_market_order\<close> raises \<^verbatim>\<open>MarketOrderException\<close>, and builds no request, when both
  size and funds are given and when neither is. When exactly one is given it raises
  nothing: it posts to \<^verbatim>\<open>orders\<close> a mapping that holds the given one of size and funds and
  not the other, and under \<^verbatim>\<open>clientOid\<close> the caller's client_oid when given and otherwise
  the identifier \<^verbatim>\<open>flat_uuid()\<close> generated.
\<close>

theorem create_market_order_validation:
  "(truthy size' \<and> truthy funds \<longrightarrow>
      (\<exists>msg. create_market_order uuid symbol side size' funds client_oid remark stp =
         Inl (MarketOrderException msg)))
   \<and> (\<not> truthy size' \<and> \<not> truthy funds \<longrightarrow>
      (\<exists>msg. create_market_order uuid symbol side size' funds client_oid remark stp =
         Inl (MarketOrderException msg)))
   \<and> (truthy size' \<noteq> truthy funds \<longrightarrow>
      (\<exists>data. create_market_order uuid symbol side size' funds client_oid remark stp =
           Inr (post ''orders'' True data)
         \<and> getitem data ''clientOid'' = Some (if truthy client_oid then client_oid else PStr uuid)
         \<and> getitem data ''size'' = (if truthy size' then Some size' else None)
         \<and> getitem data ''funds'' = (if truthy funds then Some funds else None)))"
  by (auto simp: create_market_order_unfold getitem_set_if getitem_setitem getitem_Cons getitem_Nil)

text \<open>Both given, neither given, and size alone with no client_oid.\<close>

theorem create_market_order_validation_witness:
  "create_market_order ''5c52e11203aa677f33e493fb'' (PStr ''KCS-BTC'') (PStr ''buy'') (PStr ''1'') (PStr ''0.5'')
       PNone PNone PNone = Inl (MarketOrderException ''Need size or fund parameter not both'')
   \<and> create_market_order ''5c52e11203aa677f33e493fb'' (PStr ''KCS-BTC'') (PStr ''buy'') PNone PNone
       PNone PNone PNone = Inl (MarketOrderException ''Need size or fund parameter'')
   \<and> create_market_order ''5c52e11203aa677f33e493fb'' (PStr ''KCS-BTC'') (PStr ''buy'') (PStr ''1'') PNone
       PNone PNone PNone =
     Inr (post ''orders'' True [(''side'', PStr ''buy''), (''symbol'', PStr ''KCS-BTC''),
       (''type'', PStr ''market''), (''size'', PStr ''1''), (''clientOid'', PStr ''5c52e11203aa677f33e493fb'')])"
  using create_market_order_validation [of "PStr ''1''" "PStr ''0.5''" "''5c52e11203aa677f33e493fb''"
      "PStr ''KCS-BTC''" "PStr ''buy''" PNone PNone PNone]
    create_market_order_validation [of PNone PNone "''5c52e11203aa677f33e493fb''"
      "PStr ''KCS-BTC''" "PStr ''buy''" PNone PNone PNone]
    create_market_order_validation [of "PStr ''1''" PNone "''5c52e11203aa677f33e493fb''"
      "PStr ''KCS-BTC''" "PStr ''buy''" PNone PNone PNone]
  by (simp add: create_market_order_unfold set_if_def ORDER_MARKET_def)

text \<open>
  Claim C7. With given read as truthy, \<^verbatim>\<open>create_limit_order\<close> raises \<^verbatim>\<open>LimitOrderException\<close>,
  and builds no request, in these combinations: stop without stop_price; stop_price
  without stop; cancel_after while time_in_force is not \<^verbatim>\<open>"GTT"\<close>; hidden and iceberg
  together; iceberg without visible_size. In every other combination it raises nothing
  and posts to \<^verbatim>\<open>orders\<close>.
\<close>

theorem create_limit_order_validation:
  \<open>(truthy stop \<and> \<not> truthy stop_price
      \<or> truthy stop_price \<and> \<not> truthy stop
      \<or> truthy cancel_after \<and> time_in_force \<noteq> PStr ''GTT''
      \<or> truthy hidden \<and> truthy iceberg
      \<or> truthy iceberg \<and> \<not> truthy visible_size \<longrightarrow>
      (\<exists>msg. create_limit_order uuid symbol side price size' client_oid remark time_in_force stop
          stop_price stp cancel_after post_only hidden iceberg visible_size =
         Inl (LimitOrderException msg)))
   \<and> (\<not> (truthy stop \<and> \<not> truthy stop_price
      \<or> truthy stop_price \<and> \<not> truthy stop
      \<or> truthy cancel_after \<and> time_in_force \<noteq> PStr ''GTT''
      \<or> truthy hidden \<and> truthy iceberg
      \<or> truthy iceberg \<and> \<not> truthy visible_size) \<longrightarrow>
      (\<exists>data. create_limit_order uuid symbol side price size' client_oid remark time_in_force stop
          stop_price stp cancel_after post_only hidden iceberg visible_size =
         Inr (post ''orders'' True data)))\<close>
  by (auto simp: create_limit_order_unfold TIMEINFORCE_GOOD_TILL_TIME_def)


text \<open>One order for each of the five combinations, and a valid order with cancel_after and GTT.\<close>

theorem create_limit_order_validation_witness:
  \<open>create_limit_order ''5c52e11203aa677f33e493fb'' (PStr ''KCS-BTC'') (PStr ''buy'') (PStr ''0.01'') (PStr ''1'')
       PNone PNone PNone (PStr ''loss'') PNone PNone PNone PNone PNone PNone PNone =
     Inl (LimitOrderException ''Stop order needs stop_price'')
   \<and> create_limit_order ''5c52e11203aa677f33e493fb'' (PStr ''KCS-BTC'') (PStr ''buy'') (PStr ''0.01'') (PStr ''1'')
       PNone PNone PNone PNone (PStr ''0.02'') PNone PNone PNone PNone PNone PNone =
     Inl (LimitOrderException ''Stop order type required with stop_price'')
   \<and> create_limit_order ''5c52e11203aa677f33e493fb'' (PStr ''KCS-BTC'') (PStr ''buy'') (PStr ''0.01'') (PStr ''1'')
       PNone PNone (PStr ''GTC'') PNone PNone PNone (PInt 60) PNone PNone PNone PNone =
     Inl (LimitOrderException ''Cancel after only works with time_in_force = "GTT"'')
   \<and> create_limit_order ''5c52e11203aa677f33e493fb'' (PStr ''KCS-BTC'') (PStr ''buy'') (PStr ''0.01'') (PStr ''1'')
       PNone PNone PNone PNone PNone PNone PNone PNone (PBool True) (PBool True) (PStr ''0.5'') =
     Inl (LimitOrderException ''Order can be either "hidden" or "iceberg"'')
   \<and> create_limit_order ''5c52e11203aa677f33e493fb'' (PStr ''KCS-BTC'') (PStr ''buy'') (PStr ''0.01'') (PStr ''1'')
       PNone PNone PNone PNone PNone PNone PNone PNone PNone (PBool True) PNone =
     Inl (LimitOrderException ''Iceberg order requires visible_size'')
   \<and> create_limit_order ''5c52e11203aa677f33e493fb'' (PStr ''KCS-BTC'') (PStr ''buy'') (PStr ''0.01'') (PStr ''1'')
       PNone PNone (PStr ''GTT'') PNone PNone PNone (PInt 60) PNone PNone PNone PNone =
     Inr (post ''orders'' True [(''symbol'', PStr ''KCS-BTC''), (''side'', PStr ''buy''),
       (''type'', PStr ''limit''), (''price'', PStr ''0.01''), (''size'', PStr ''1''),
       (''clientOid'', PStr ''5c52e11203aa677f33e493fb''), (''timeInForce'', PStr ''GTT''),
       (''cancelAfter'', PInt 60)])\<close>
  using
    create_limit_order_validation [where stop = "PStr ''loss''" and stop_price = PNone
      and cancel_after = PNone and time_in_force = PNone and hidden = PNone and iceberg = PNone
      and visible_size = PNone and uuid = "''5c52e11203aa677f33e493fb''" and symbol = "PStr ''KCS-BTC''"
      and side = "PStr ''buy''" and price = "PStr ''0.01''" and size' = "PStr ''1''" and client_oid = PNone
      and remark = PNone and stp = PNone and post_only = PNone]
    create_limit_order_validation [where stop = PNone and stop_price = "PStr ''0.02''"
      and cancel_after = PNone and time_in_force = PNone and hidden = PNone and iceberg = PNone
      and visible_size = PNone and uuid = "''5c52e11203aa677f33e493fb''" and symbol = "PStr ''KCS-BTC''"
      and side = "PStr ''buy''" and price = "PStr ''0.01''" and size' = "PStr ''1''" and client_oid = PNone
      and remark = PNone and stp = PNone and post_only = PNone]
    create_limit_order_validation [where stop = PNone and stop_price = PNone
      and cancel_after = "PInt 60" and time_in_force = "PStr ''GTC''" and hidden = PNone and iceberg = PNone
      and visible_size = PNone and uuid = "''5c52e11203aa677f33e493fb''" and symbol = "PStr ''KCS-BTC''"
      and side = "PStr ''buy''" and price = "PStr ''0.01''" and size' = "PStr ''1''" and client_oid = PNone
      and remark = PNone and stp = PNone and post_only = PNone]
    create_limit_order_validation [where stop = PNone and stop_price = PNone
      and cancel_after = PNone and time_in_force = PNone and hidden = "PBool True" and iceberg = "PBool True"
      and visible_size = "PStr ''0.5''" and uuid = "''5c52e11203aa677f33e493fb''" and symbol = "PStr ''KCS-BTC''"
      and side = "PStr ''buy''" and price = "PStr ''0.01''" and size' = "PStr ''1''" and client_oid = PNone
      and remark = PNone and stp = PNone and post_only = PNone]
    create_limit_order_validation [where stop = PNone and stop_price = PNone
      and cancel_after = PNone and time_in_force = PNone and hidden = PNone and iceberg = "PBool True"
      and visible_size = PNone and uuid = "''5c52e11203aa677f33e493fb''" and symbol = "PStr ''KCS-BTC''"
      and side = "PStr ''buy''" and price = "PStr ''0.01''" and size' = "PStr ''1''" and client_oid = PNone
      and remark = PNone and stp = PNone and post_only = PNone]
    create_limit_order_validation [where stop = PNone and stop_price = PNone
      and cancel_after = "PInt 60" and time_in_force = "PStr ''GTT''" and hidden = PNone and iceberg = PNone
      and visible_size = PNone and uuid = "''5c52e11203aa677f33e493fb''" and symbol = "PStr ''KCS-BTC''"
      and side = "PStr ''buy''" and price = "PStr ''0.01''" and size' = "PStr ''1''" and client_oid = PNone
      and remark = PNone and stp = PNone and post_only = PNone]
  by (simp add: create_limit_order_unfold set_if_def ORDER_LIMIT_def TIMEINFORCE_GOOD_TILL_TIME_def)

text \<open>
  Claim C8. Whenever \<^verbatim>\<open>create_market_order\<close> or \<^verbatim>\<open>create_limit_order\<close> builds a request, and
  for every \<^verbatim>\<open>create_inner_transfer\<close>, the outgoing mapping has a \<^verbatim>\<open>clientOid\<close>: the caller's
  identifier when given (truthy), otherwise the generated one. \<^verbatim>\<open>create_limit_order\<close>
  generates it like the other two; there is no path to the request without it.
\<close>

theorem client_oid_always_sent:
  \<open>(create_market_order uuid symbol side size' funds client_oid remark stp = Inr call \<longrightarrow>
      getitem (req_data call) ''clientOid'' = Some (if truthy client_oid then client_oid else PStr uuid))
   \<and> (create_limit_order uuid symbol side price size' client_oid remark time_in_force stop stop_price
        stp cancel_after post_only hidden iceberg visible_size = Inr call \<longrightarrow>
      getitem (req_data call) ''clientOid'' = Some (if truthy client_oid then client_oid else PStr uuid))
   \<and> getitem (req_data (create_inner_transfer uuid from_account_id to_account_id amount order_id))
        ''clientOid'' = Some (if truthy order_id then order_id else PStr uuid)\<close>
proof -
  have m: "create_market_order uuid symbol side size' funds client_oid remark stp = Inr call \<longrightarrow>
      getitem (req_data call) ''clientOid'' = Some (if truthy client_oid then client_oid else PStr uuid)"
    by (auto simp: create_market_order_unfold req_data_post getitem_set_if getitem_setitem
        getitem_Cons getitem_Nil split: if_splits)
  have l: \<open>create_limit_order uuid symbol side price size' client_oid remark time_in_force stop stop_price
        stp cancel_after post_only hidden iceberg visible_size = Inr call \<longrightarrow>
      getitem (req_data call) ''clientOid'' = Some (if truthy client_oid then client_oid else PStr uuid)\<close>
    by (auto simp: create_limit_order_unfold req_data_post getitem_set_if getitem_setitem
        getitem_Cons getitem_Nil split: if_splits)
  have t: "getitem (req_data (create_inner_transfer uuid from_account_id to_account_id amount order_id))
        ''clientOid'' = Some (if truthy order_id then order_id else PStr uuid)"
    by (simp add: create_inner_transfer_def Let_def req_data_post getitem_Cons getitem_Nil)
  from m l t show ?thesis by blast
qed

text \<open>A limit order and an inner transfer with no identifier, a market order with one.\<close>

theorem client_oid_always_sent_witness:
  \<open>create_limit_order ''5c52e11203aa677f33e493fb'' (PStr ''KCS-BTC'') (PStr ''sell'') (PStr ''0.01'') (PStr ''1'')
       PNone PNone PNone PNone PNone PNone PNone PNone PNone PNone PNone =
     Inr (post ''orders'' True [(''symbol'', PStr ''KCS-BTC''), (''side'', PStr ''sell''),
       (''type'', PStr ''limit''), (''price'', PStr ''0.01''), (''size'', PStr ''1''),
       (''clientOid'', PStr ''5c52e11203aa677f33e493fb'')])
   \<and> getitem (req_data (post ''orders'' True [(''symbol'', PStr ''KCS-BTC''), (''side'', PStr ''sell''),
       (''type'', PStr ''limit''), (''price'', PStr ''0.01''), (''size'', PStr ''1''),
       (''clientOid'', PStr ''5c52e11203aa677f33e493fb'')])) ''clientOid'' =
     Some (PStr ''5c52e11203aa677f33e493fb'')
   \<and> create_market_order ''5c52e11203aa677f33e493fb'' (PStr ''KCS-BTC'') (PStr ''sell'') PNone (PStr ''2'')
       (PStr ''mine'') PNone PNone =
     Inr (post ''orders'' True [(''side'', PStr ''sell''), (''symbol'', PStr ''KCS-BTC''),
       (''type'', PStr ''market''), (''funds'', PStr ''2''), (''clientOid'', PStr ''mine'')])
   \<and> getitem (req_data (post ''orders'' True [(''side'', PStr ''sell''), (''symbol'', PStr ''KCS-BTC''),
       (''type'', PStr ''market''), (''funds'', PStr ''2''), (''clientOid'', PStr ''mine'')])) ''clientOid'' =
     Some (PStr ''mine'')
   \<and> getitem (req_data (create_inner_transfer ''5c52e11203aa677f33e493fb'' (PStr ''a1'') (PStr ''a2'')
       (PStr ''3'') PNone)) ''clientOid'' = Some (PStr ''5c52e11203aa677f33e493fb'')\<close>
proof -
  let ?u = "''5c52e11203aa677f33e493fb''"
  let ?lc = \<open>post ''orders'' True [(''symbol'', PStr ''KCS-BTC''), (''side'', PStr ''sell''),
       (''type'', PStr ''limit''), (''price'', PStr ''0.01''), (''size'', PStr ''1''),
       (''clientOid'', PStr ''5c52e11203aa677f33e493fb'')]\<close>
  let ?mc = \<open>post ''orders'' True [(''side'', PStr ''sell''), (''symbol'', PStr ''KCS-BTC''),
       (''type'', PStr ''market''), (''funds'', PStr ''2''), (''clientOid'', PStr ''mine'')]\<close>
  have l: \<open>create_limit_order ?u (PStr ''KCS-BTC'') (PStr ''sell'') (PStr ''0.01'') (PStr ''1'')
       PNone PNone PNone PNone PNone PNone PNone PNone PNone PNone PNone = Inr ?lc\<close>
    by (simp add: create_limit_order_unfold set_if_def ORDER_LIMIT_def)
  have m: \<open>create_market_order ?u (PStr ''KCS-BTC'') (PStr ''sell'') PNone (PStr ''2'')
       (PStr ''mine'') PNone PNone = Inr ?mc\<close>
    by (simp add: create_market_order_unfold set_if_def ORDER_MARKET_def)
  from l m
    client_oid_always_sent [where uuid = ?u and call = ?lc and symbol = "PStr ''KCS-BTC''"
      and side = "PStr ''sell''" and price = "PStr ''0.01''" and size' = "PStr ''1''"
      and client_oid = PNone and remark = PNone and time_in_force = PNone and stop = PNone
      and stop_price = PNone and stp = PNone and cancel_after = PNone and post_only = PNone
      and hidden = PNone and iceberg = PNone and visible_size = PNone and order_id = PNone
      and from_account_id = "PStr ''a1''" and to_account_id = "PStr ''a2''" and amount = "PStr ''3''"]
    client_oid_always_sent [where uuid = ?u and call = ?mc and symbol = "PStr ''KCS-BTC''"
      and side = "PStr ''sell''" and size' = PNone and funds = "PStr ''2''"
      and client_oid = "PStr ''mine''" and remark = PNone and stp = PNone]
  show ?thesis by simp
qed

text \<open>
  Claim C9. \<^verbatim>\<open>cancel_all_orders\<close> with no symbol (\<^verbatim>\<open>None\<close>) sends a mapping without the key
  \<^verbatim>\<open>symbol\<close>; with a symbol the mapping is exactly that symbol under \<^verbatim>\<open>symbol\<close>. The test is
  \<^verbatim>\<open>symbol is not None\<close>, so any other value, the empty string too, is sent as it is.
\<close>

theorem cancel_all_orders_symbol:
  "cancel_all_orders symbol =
     delete ''orders'' True (if symbol = PNone then [] else [(''symbol'', symbol)])
   \<and> (symbol = PNone \<longrightarrow> ''symbol'' \<notin> set (keys (req_data (cancel_all_orders symbol))))
   \<and> (symbol \<noteq> PNone \<longrightarrow> req_data (cancel_all_orders symbol) = [(''symbol'', symbol)])"
  by (simp add: cancel_all_orders_def delete_def keys_def)

text \<open>No symbol, a symbol, and the empty string as symbol.\<close>

theorem cancel_all_orders_symbol_witness:
  "req_data (cancel_all_orders PNone) = []
   \<and> req_data (cancel_all_orders (PStr ''KCS-BTC'')) = [(''symbol'', PStr ''KCS-BTC'')]
   \<and> req_data (cancel_all_orders (PStr '''')) = [(''symbol'', PStr '''')]"
  using cancel_all_orders_symbol [of PNone] cancel_all_orders_symbol [of "PStr ''KCS-BTC''"]
    cancel_all_orders_symbol [of "PStr ''''"]
  by (simp add: delete_def)

text \<open>The start of the day is a multiple of 86400 seconds, at most one day before the reading.\<close>

lemma start_of_utc_day_bounds:
  "start_of_utc_day t mod 86400 = 0 \<and> start_of_utc_day t \<le> t \<and> t < start_of_utc_day t + 86400"
proof -
  have e: "start_of_utc_day t = t - t mod 86400"
    by (simp add: start_of_utc_day_def minus_mod_eq_mult_div)
  have a: "0 \<le> t mod 86400" by simp
  have b: "t mod 86400 < 86400" by simp
  have c: "start_of_utc_day t mod 86400 = 0"
    by (simp add: start_of_utc_day_def)
  from a b c show ?thesis
    unfolding e by simp
qed

text \<open>
  Claim C10. The mapping \<^verbatim>\<open>get_kline_data\<close> sends always has the keys \<^verbatim>\<open>startAt\<close> and
  \<^verbatim>\<open>endAt\<close>: the caller's value when it is not \<^verbatim>\<open>None\<close>, and otherwise, for \<^verbatim>\<open>startAt\<close>, the
  Unix time of the start of the UTC day of the clock reading (a multiple of 86400, at
  most the reading and less than a day before it) and, for \<^verbatim>\<open>endAt\<close>, the current Unix
  time. The optional \<^verbatim>\<open>type\<close>, by contrast, is left out when it is \<^verbatim>\<open>None\<close>.
\<close>

theorem get_kline_data_range_defaults:
  "getitem (req_data (get_kline_data utcnow now symbol kline_type start end')) ''startAt'' =
     Some (if start \<noteq> PNone then start else PInt (start_of_utc_day utcnow))
   \<and> getitem (req_data (get_kline_data utcnow now symbol kline_type start end')) ''endAt'' =
     Some (if end' \<noteq> PNone then end' else PInt now)
   \<and> ''startAt'' \<in> set (keys (req_data (get_kline_data utcnow now symbol kline_type start end')))
   \<and> ''endAt'' \<in> set (keys (req_data (get_kline_data utcnow now symbol kline_type start end')))
   \<and> (kline_type = PNone \<longrightarrow>
        ''type'' \<notin> set (keys (req_data (get_kline_data utcnow now symbol kline_type start end'))))
   \<and> start_of_utc_day utcnow mod 86400 = 0
   \<and> start_of_utc_day utcnow \<le> utcnow \<and> utcnow < start_of_utc_day utcnow + 86400"
  using start_of_utc_day_bounds [of utcnow]
  by (simp add: get_kline_data_def get_def Let_def getitem_setitem getitem_Cons getitem_Nil
      keys_setitem keys_Cons keys_Nil)

text \<open>Neither bound supplied, at 1507479171 (2017-10-08 16:12:51 UTC): the day began at 1507420800.\<close>

theorem get_kline_data_range_defaults_witness:
  "req_data (get_kline_data 1507479171 1507479172 (PStr ''KCS-BTC'') (PStr ''5min'') PNone PNone) =
     [(''symbol'', PStr ''KCS-BTC''), (''type'', PStr ''5min''), (''startAt'', PInt 1507420800),
      (''endAt'', PInt 1507479172)]
   \<and> getitem (req_data (get_kline_data 1507479171 1507479172 (PStr ''KCS-BTC'') (PStr ''5min'') PNone PNone))
        ''startAt'' = Some (PInt 1507420800)
   \<and> getitem (req_data (get_kline_data 1507479171 1507479172 (PStr ''KCS-BTC'') (PStr ''5min'') PNone PNone))
        ''endAt'' = Some (PInt 1507479172)"
  using get_kline_data_range_defaults [of 1507479171 1507479172 "PStr ''KCS-BTC''" "PStr ''5min''" PNone PNone]
  by (simp add: get_kline_data_def get_def Let_def start_of_utc_day_def)

end
